theory Spec2Isabelle
  imports Main
begin

section \<open>Identifiers, task documents and errors\<close>

text \<open>
  An \<open>ObjectId\<close> is the identifier type of the document store. The code never compares
  two identifiers directly: it compares their canonical string forms, \<open>e.toString()\<close>.
  The identifier is modelled by that canonical string, and \<open>toString\<close> reads it.
\<close>

datatype ObjectId = ObjectId (toString: string)

text \<open>A \<open>Date\<close> is a point in time, in milliseconds since the epoch.\<close>

type_synonym Date = int

text \<open>
  The interface \<open>TaskDoc\<close> of \<open>task.ts\<close>. The identifier of a document is the key under
  which the store holds it; the bookkeeping fields of \<open>BaseDoc\<close>, which the task concept
  never reads or writes, are left out.
\<close>

record TaskDoc =
  requester :: ObjectId
  title :: string
  description :: string
  deadline :: Date
  files :: "string list"
  assisters :: "ObjectId list"
  viewed :: "ObjectId list"
  completed :: bool
  completionDate :: "Date option"
  completer :: "ObjectId option"

text \<open>
  \<open>Partial<TaskDoc>\<close>: every field may be absent (\<open>None\<close>) or supplied (\<open>Some v\<close>).
  The two nullable fields are supplied as \<open>Some None\<close> (null) or \<open>Some (Some v)\<close>.
\<close>

record PartialTaskDoc =
  p_requester :: "ObjectId option"
  p_title :: "string option"
  p_description :: "string option"
  p_deadline :: "Date option"
  p_files :: "string list option"
  p_assisters :: "ObjectId list option"
  p_viewed :: "ObjectId list option"
  p_completed :: "bool option"
  p_completionDate :: "Date option option"
  p_completer :: "ObjectId option option"

definition emptyPartial :: PartialTaskDoc where
  "emptyPartial =
     \<lparr>p_requester = None, p_title = None, p_description = None, p_deadline = None,
      p_files = None, p_assisters = None, p_viewed = None, p_completed = None,
      p_completionDate = None, p_completer = None\<rparr>"

text \<open>
  The errors thrown by the task concept. \<open>TaskRequesterNotMatchError\<close> extends
  \<open>NotAllowedError\<close> and carries the requester and the task identifier. \<open>StorageError\<close>
  stands for a failure of the store itself.
\<close>

datatype error =
    NotFoundError string
  | NotAllowedError string
  | TaskRequesterNotMatchError ObjectId ObjectId
  | StorageError

fun isNotAllowed :: "error \<Rightarrow> bool" where
  "isNotAllowed (NotAllowedError m) = True"
| "isNotAllowed (TaskRequesterNotMatchError r t) = True"
| "isNotAllowed (NotFoundError m) = False"
| "isNotAllowed StorageError = False"

fun isNotFound :: "error \<Rightarrow> bool" where
  "isNotFound (NotFoundError m) = True"
| "isNotFound (NotAllowedError m) = False"
| "isNotFound (TaskRequesterNotMatchError r t) = False"
| "isNotFound StorageError = False"

section \<open>The document collection\<close>

text \<open>
  The collection \<open>tasks\<close> maps identifiers to task documents. Every operation of the
  concept takes the collection and returns its outcome together with the collection
  afterwards, so that a failed operation shows the collection it leaves behind.
\<close>

type_synonym store = "ObjectId \<rightharpoonup> TaskDoc"

type_synonym 'a outcome = "(error + 'a) \<times> store"

definition emptyStore :: store where
  "emptyStore = Map.empty"

text \<open>
  Modelled from the spec: \<open>DocCollection.readOne\<close> (\<open>framework/doc\<close>), the store's
  read-one by identifier: the document, or null when there is none.
\<close>

definition readOne :: "store \<Rightarrow> ObjectId \<Rightarrow> TaskDoc option" where
  "readOne tasks tid = tasks tid"

text \<open>
  Modelled from the spec: \<open>DocCollection.createOne\<close> (\<open>framework/doc\<close>), the store's
  insert-one, which returns the identifier assigned at creation. The identifier is an
  opaque unique value chosen by the store; it is the argument \<open>newId\<close>. An identifier
  already in use is a storage failure and nothing is inserted.
\<close>

definition createOne :: "store \<Rightarrow> TaskDoc \<Rightarrow> ObjectId \<Rightarrow> ObjectId outcome" where
  "createOne tasks item newId =
     (case tasks newId of
        Some other \<Rightarrow> (Inl StorageError, tasks)
      | None \<Rightarrow> (Inr newId, tasks(newId \<mapsto> item)))"

text \<open>
  Overwriting the supplied fields of a document: each field of the partial that is
  present replaces the field of the document, and every other field is kept.
\<close>

definition supplied :: "'a option \<Rightarrow> 'a \<Rightarrow> 'a" where
  "supplied new old = (case new of None \<Rightarrow> old | Some v \<Rightarrow> v)"

definition applyPartial :: "PartialTaskDoc \<Rightarrow> TaskDoc \<Rightarrow> TaskDoc" where
  "applyPartial u task =
     \<lparr>requester = supplied (p_requester u) (requester task),
      title = supplied (p_title u) (title task),
      description = supplied (p_description u) (description task),
      deadline = supplied (p_deadline u) (deadline task),
      files = supplied (p_files u) (files task),
      assisters = supplied (p_assisters u) (assisters task),
      viewed = supplied (p_viewed u) (viewed task),
      completed = supplied (p_completed u) (completed task),
      completionDate = supplied (p_completionDate u) (completionDate task),
      completer = supplied (p_completer u) (completer task)\<rparr>"

text \<open>
  Modelled from the spec: \<open>DocCollection.updateOne\<close> (\<open>framework/doc\<close>), the store's
  update-one by identifier, an arbitrary partial-field overwrite. No document is
  created when the identifier matches none.
\<close>

definition updateOne :: "store \<Rightarrow> ObjectId \<Rightarrow> PartialTaskDoc \<Rightarrow> store" where
  "updateOne tasks tid u =
     (case tasks tid of
        None \<Rightarrow> tasks
      | Some task \<Rightarrow> tasks(tid \<mapsto> applyPartial u task))"

text \<open>
  Modelled from the spec: \<open>DocCollection.deleteOne\<close> (\<open>framework/doc\<close>), the store's
  delete-one by identifier, a hard delete.
\<close>

definition deleteOne :: "store \<Rightarrow> ObjectId \<Rightarrow> store" where
  "deleteOne tasks tid = tasks(tid := None)"

section \<open>Array operations of the host language\<close>

text \<open>\<open>xs.indexOf(x)\<close>: the index of the first element equal to \<open>x\<close>, or \<open>-1\<close>.\<close>

fun indexOf :: "'a list \<Rightarrow> 'a \<Rightarrow> int" where
  "indexOf [] x = -1"
| "indexOf (y # ys) x =
     (if y = x then 0
      else (let i = indexOf ys x in if i = -1 then -1 else i + 1))"

text \<open>
  \<open>xs.splice(start, 1)\<close> for \<open>start \<ge> 0\<close>: removes the element at \<open>start\<close>, and nothing
  when \<open>start\<close> is past the end.
\<close>

definition splice1 :: "'a list \<Rightarrow> int \<Rightarrow> 'a list" where
  "splice1 xs start = take (nat start) xs @ drop (Suc (nat start)) xs"

text \<open>\<open>xs.includes(x)\<close>.\<close>

definition includesElem :: "'a list \<Rightarrow> 'a \<Rightarrow> bool" where
  "includesElem xs x = (x \<in> set xs)"

text \<open>\<open>xs.push(x)\<close>, as the array afterwards.\<close>

definition push :: "'a list \<Rightarrow> 'a \<Rightarrow> 'a list" where
  "push xs x = xs @ [x]"

section \<open>The task concept\<close>

definition notExist :: "ObjectId \<Rightarrow> error" where
  "notExist tid = NotFoundError (''Task '' @ toString tid @ '' does not exist!'')"

subsection \<open>Guards\<close>

definition isRequester :: "store \<Rightarrow> ObjectId \<Rightarrow> ObjectId \<Rightarrow> error + unit" where
  "isRequester tasks req tid =
     (case readOne tasks tid of
        None \<Rightarrow> Inl (notExist tid)
      | Some task \<Rightarrow>
          if toString (requester task) \<noteq> toString req
          then Inl (TaskRequesterNotMatchError req tid)
          else Inr ())"

definition isNotRequester :: "store \<Rightarrow> ObjectId \<Rightarrow> ObjectId \<Rightarrow> error + unit" where
  "isNotRequester tasks req tid =
     (case readOne tasks tid of
        None \<Rightarrow> Inl (notExist tid)
      | Some task \<Rightarrow>
          if toString (requester task) = toString req
          then Inl (NotAllowedError ''Person is the requester.'')
          else Inr ())"

definition isNotAssister :: "store \<Rightarrow> ObjectId \<Rightarrow> ObjectId \<Rightarrow> error + unit" where
  "isNotAssister tasks assister tid =
     (case readOne tasks tid of
        None \<Rightarrow> Inl (notExist tid)
      | Some task \<Rightarrow>
          (let strs = map toString (assisters task)
           in if includesElem (map (\<lambda>a. a) strs) (toString assister)
              then Inl (NotAllowedError ''Person is already an assister.'')
              else Inr ()))"

definition isAssister :: "store \<Rightarrow> ObjectId \<Rightarrow> ObjectId \<Rightarrow> error + unit" where
  "isAssister tasks assister tid =
     (case readOne tasks tid of
        None \<Rightarrow> Inl (notExist tid)
      | Some task \<Rightarrow>
          (let strs = map toString (assisters task)
           in if \<not> includesElem (map (\<lambda>a. a) strs) (toString assister)
              then Inl (NotAllowedError ''Person is not an assister.'')
              else Inr ()))"

subsection \<open>Sanitising a generic update\<close>

definition prohibitedUpdates :: "string list" where
  "prohibitedUpdates = [''requester'']"

text \<open>
  The keys of a partial document: the names of the fields it supplies. The loop of
  \<open>sanitizeUpdate\<close> throws at the first prohibited key it meets; with one prohibited
  name, the order in which the keys are visited does not change its outcome.
\<close>

fun keyOf :: "string \<Rightarrow> 'a option \<Rightarrow> string list" where
  "keyOf k None = []"
| "keyOf k (Some v) = [k]"

definition keys :: "PartialTaskDoc \<Rightarrow> string list" where
  "keys u =
     keyOf ''requester'' (p_requester u) @ keyOf ''title'' (p_title u) @
     keyOf ''description'' (p_description u) @ keyOf ''deadline'' (p_deadline u) @
     keyOf ''files'' (p_files u) @ keyOf ''assisters'' (p_assisters u) @
     keyOf ''viewed'' (p_viewed u) @ keyOf ''completed'' (p_completed u) @
     keyOf ''completionDate'' (p_completionDate u) @ keyOf ''completer'' (p_completer u)"

text \<open>The loop \<open>for (const key in update)\<close> of \<open>sanitizeUpdate\<close>.\<close>

fun sanitizeKeys :: "string list \<Rightarrow> error + unit" where
  "sanitizeKeys [] = Inr ()"
| "sanitizeKeys (key # rest) =
     (if includesElem prohibitedUpdates key
      then Inl (NotAllowedError (''Cannot update '' @ [CHR 0x27] @ key @ [CHR 0x27] @ '' field!''))
      else sanitizeKeys rest)"

definition sanitizeUpdate :: "PartialTaskDoc \<Rightarrow> error + unit" where
  "sanitizeUpdate u = sanitizeKeys (keys u)"

subsection \<open>Operations\<close>

text \<open>
  \<open>create\<close>: the parameter \<open>files\<close> has the default \<open>[]\<close>, taken when the argument is
  absent. The result carries the message, the new identifier and the task read back.
\<close>

definition create ::
  "store \<Rightarrow> ObjectId \<Rightarrow> string \<Rightarrow> string \<Rightarrow> Date \<Rightarrow> string list option \<Rightarrow> ObjectId
     \<Rightarrow> (string \<times> ObjectId \<times> TaskDoc option) outcome" where
  "create tasks req ttl descr dl fls newId =
     (case createOne tasks
             \<lparr>requester = req, title = ttl, description = descr, deadline = dl,
              files = (case fls of None \<Rightarrow> [] | Some f \<Rightarrow> f),
              assisters = [], viewed = [], completed = False,
              completionDate = None, completer = None\<rparr> newId of
        (Inl e, tasks1) \<Rightarrow> (Inl e, tasks1)
      | (Inr tid, tasks1) \<Rightarrow>
          (Inr (''Task successfully created!'', tid, readOne tasks1 tid), tasks1))"

definition getTaskById :: "store \<Rightarrow> ObjectId \<Rightarrow> error + TaskDoc" where
  "getTaskById tasks tid =
     (case readOne tasks tid of
        None \<Rightarrow> Inl (NotFoundError ''Task not found!'')
      | Some task \<Rightarrow> Inr task)"

definition update :: "store \<Rightarrow> ObjectId \<Rightarrow> PartialTaskDoc \<Rightarrow> string outcome" where
  "update tasks tid u =
     (case sanitizeUpdate u of
        Inl e \<Rightarrow> (Inl e, tasks)
      | Inr ok \<Rightarrow> (Inr ''Task successfully updated!'', updateOne tasks tid u))"

definition delete :: "store \<Rightarrow> ObjectId \<Rightarrow> string outcome" where
  "delete tasks tid = (Inr ''Task deleted successfully!'', deleteOne tasks tid)"

text \<open>
  \<open>offerHelp\<close> and \<open>retractHelp\<close> issue their write without awaiting it; the write is
  taken in program order, as the store applies it.
\<close>

definition offerHelp :: "store \<Rightarrow> ObjectId \<Rightarrow> ObjectId \<Rightarrow> string outcome" where
  "offerHelp tasks assister tid =
     (case isNotRequester tasks assister tid of
        Inl e \<Rightarrow> (Inl e, tasks)
      | Inr ok1 \<Rightarrow>
     (case isNotAssister tasks assister tid of
        Inl e \<Rightarrow> (Inl e, tasks)
      | Inr ok2 \<Rightarrow>
     (case readOne tasks tid of
        None \<Rightarrow> (Inl (notExist tid), tasks)
      | Some task \<Rightarrow>
          (let as = push (assisters task) assister
           in (Inr ''Successfully offered help.'',
               updateOne tasks tid (emptyPartial\<lparr>p_assisters := Some as\<rparr>))))))"

definition retractHelp :: "store \<Rightarrow> ObjectId \<Rightarrow> ObjectId \<Rightarrow> string outcome" where
  "retractHelp tasks assister tid =
     (case isNotRequester tasks assister tid of
        Inl e \<Rightarrow> (Inl e, tasks)
      | Inr ok1 \<Rightarrow>
     (case isAssister tasks assister tid of
        Inl e \<Rightarrow> (Inl e, tasks)
      | Inr ok2 \<Rightarrow>
     (case readOne tasks tid of
        None \<Rightarrow> (Inl (notExist tid), tasks)
      | Some task \<Rightarrow>
          (let index = indexOf (map toString (assisters task)) (toString assister);
               as = (if index \<noteq> -1 then splice1 (assisters task) index else assisters task)
           in (Inr ''Successfully retracted help offer.'',
               updateOne tasks tid (emptyPartial\<lparr>p_assisters := Some as\<rparr>))))))"

text \<open>
  \<open>complete\<close>: \<open>now\<close> is the value of \<open>new Date()\<close>; the optional \<open>assister\<close> is written
  as it is, an absent one as null.
\<close>

definition complete :: "store \<Rightarrow> ObjectId \<Rightarrow> ObjectId option \<Rightarrow> Date \<Rightarrow> string outcome" where
  "complete tasks tid assister now =
     (case readOne tasks tid of
        None \<Rightarrow> (Inl (notExist tid), tasks)
      | Some task \<Rightarrow>
          (Inr ''Successfully completed task.'',
           updateOne tasks tid
             (emptyPartial\<lparr>p_completed := Some True, p_completionDate := Some (Some now),
                            p_completer := Some assister\<rparr>)))"

definition view :: "store \<Rightarrow> ObjectId \<Rightarrow> ObjectId \<Rightarrow> string outcome" where
  "view tasks viewer tid =
     (case readOne tasks tid of
        None \<Rightarrow> (Inl (notExist tid), tasks)
      | Some task \<Rightarrow>
          if \<not> includesElem (map toString (viewed task)) (toString viewer)
          then (Inr ''Successfully viewed task.'',
                updateOne tasks tid (emptyPartial\<lparr>p_viewed := Some (push (viewed task) viewer)\<rparr>))
          else (Inr ''Successfully viewed task.'', tasks))"

text \<open>Whether the collection holds a task under \<open>tid\<close> whose \<open>completed\<close> flag is set.\<close>

definition isCompleted :: "store \<Rightarrow> ObjectId \<Rightarrow> bool" where
  "isCompleted tasks tid =
     (case readOne tasks tid of None \<Rightarrow> False | Some task \<Rightarrow> completed task)"

section \<open>Example data\<close>

text \<open>A requester, two other users, and the task of the scenario: "Fix sink".\<close>

definition userR :: ObjectId where "userR = ObjectId ''r1''"
definition userA :: ObjectId where "userA = ObjectId ''a1''"
definition userB :: ObjectId where "userB = ObjectId ''b1''"
definition taskId :: ObjectId where "taskId = ObjectId ''t1''"
definition sinkTask :: TaskDoc where
  "sinkTask =
     \<lparr>requester = userR, title = ''Fix sink'', description = ''Kitchen tap leaks'',
      deadline = 1735689600000, files = [], assisters = [], viewed = [], completed = False,
      completionDate = None, completer = None\<rparr>"

section \<open>Auxiliary facts\<close>

lemma toString_eq_iff: "toString a = toString b \<longleftrightarrow> a = b"
  by (cases a; cases b) simp

lemma indexOf_ge: "- 1 \<le> indexOf xs x"
  by (induction xs) (auto simp: Let_def)

lemma indexOf_absent: "indexOf xs x = - 1 \<longleftrightarrow> x \<notin> set xs"
proof (induction xs)
  case Nil
  then show ?case by simp
next
  case (Cons y ys)
  have "- 1 \<le> indexOf ys x" by (rule indexOf_ge)
  with Cons show ?case by (auto simp: Let_def)
qed

lemma indexOf_map_toString: "indexOf (map toString xs) (toString x) = indexOf xs x"
  by (induction xs) (simp_all add: toString_eq_iff Let_def)

lemma splice1_indexOf: "x \<in> set xs \<Longrightarrow> splice1 xs (indexOf xs x) = remove1 x xs"
proof (induction xs)
  case Nil
  then show ?case by simp
next
  case (Cons y ys)
  show ?case
  proof (cases "y = x")
    case True
    then show ?thesis by (simp add: splice1_def)
  next
    case False
    with Cons.prems have mem: "x \<in> set ys" by simp
    then have ne: "indexOf ys x \<noteq> - 1" by (simp add: indexOf_absent)
    with indexOf_ge [of ys x] have nn: "0 \<le> indexOf ys x" by linarith
    then have "nat (indexOf ys x + 1) = Suc (nat (indexOf ys x))" by simp
    with Cons.IH [OF mem] False ne show ?thesis
      by (simp add: splice1_def Let_def)
  qed
qed

lemma sanitizeKeys_keyOf_append:
  "sanitizeKeys (keyOf k v @ rest) =
     (if v \<noteq> None \<and> includesElem prohibitedUpdates k
      then Inl (NotAllowedError (''Cannot update '' @ [CHR 0x27] @ k @ [CHR 0x27] @ '' field!''))
      else sanitizeKeys rest)"
  by (cases v) simp_all

lemma sanitizeKeys_keyOf:
  "sanitizeKeys (keyOf k v) =
     (if v \<noteq> None \<and> includesElem prohibitedUpdates k
      then Inl (NotAllowedError (''Cannot update '' @ [CHR 0x27] @ k @ [CHR 0x27] @ '' field!''))
      else Inr ())"
  by (cases v) simp_all

lemma sanitizeUpdate_eq:
  "sanitizeUpdate u =
     (if p_requester u \<noteq> None
      then Inl (NotAllowedError (''Cannot update '' @ [CHR 0x27] @ ''requester'' @ [CHR 0x27] @ '' field!''))
      else Inr ())"
  by (simp add: sanitizeUpdate_def keys_def sanitizeKeys_keyOf_append sanitizeKeys_keyOf
      includesElem_def prohibitedUpdates_def)


lemmas example_defs = userR_def userA_def userB_def taskId_def sinkTask_def emptyStore_def

lemmas guard_defs = isNotRequester_def isNotAssister_def isAssister_def readOne_def
  includesElem_def notExist_def

lemma emptyPartial_requester: "p_requester emptyPartial = None"
  by (simp add: emptyPartial_def)

lemma update_eq:
  "update tasks tid u =
     (if p_requester u \<noteq> None
      then (Inl (NotAllowedError (''Cannot update '' @ [CHR 0x27] @ ''requester'' @ [CHR 0x27] @ '' field!'')),
            tasks)
      else (Inr ''Task successfully updated!'', updateOne tasks tid u))"
  by (simp add: update_def sanitizeUpdate_eq)

lemma updateOne_eq:
  "readOne tasks tid = Some task \<Longrightarrow> updateOne tasks tid u = tasks(tid \<mapsto> applyPartial u task)"
  by (simp add: updateOne_def readOne_def)

lemma readOne_upd: "readOne (tasks(tid \<mapsto> task)) tid = Some task"
  by (simp add: readOne_def)


lemma applyPartial_assisters:
  "applyPartial (emptyPartial\<lparr>p_assisters := Some as\<rparr>) task = task\<lparr>assisters := as\<rparr>"
  by (simp add: applyPartial_def emptyPartial_def supplied_def)

lemma applyPartial_viewed:
  "applyPartial (emptyPartial\<lparr>p_viewed := Some vs\<rparr>) task = task\<lparr>viewed := vs\<rparr>"
  by (simp add: applyPartial_def emptyPartial_def supplied_def)

lemma applyPartial_complete:
  "applyPartial (emptyPartial\<lparr>p_completed := Some True, p_completionDate := Some (Some now),
       p_completer := Some a\<rparr>) task
   = task\<lparr>completed := True, completionDate := Some now, completer := a\<rparr>"
  by (simp add: applyPartial_def emptyPartial_def supplied_def)

lemma offerHelp_eq:
  "readOne tasks tid = Some task \<Longrightarrow>
   offerHelp tasks a tid =
     (if toString (requester task) = toString a
      then (Inl (NotAllowedError ''Person is the requester.''), tasks)
      else if a \<in> set (assisters task)
      then (Inl (NotAllowedError ''Person is already an assister.''), tasks)
      else (Inr ''Successfully offered help.'',
            tasks(tid \<mapsto> task\<lparr>assisters := assisters task @ [a]\<rparr>)))"
  by (auto simp: offerHelp_def guard_defs updateOne_def push_def applyPartial_assisters
      toString_eq_iff)

lemma offerHelp_missing:
  "readOne tasks tid = None \<Longrightarrow> offerHelp tasks a tid = (Inl (notExist tid), tasks)"
  by (simp add: offerHelp_def isNotRequester_def readOne_def)


section \<open>Properties of the task concept\<close>

text \<open>
  C1. If \<open>offerHelp(U, T)\<close> succeeds, then the task existed, \<open>U\<close> has been appended at the
  end of its \<open>assisters\<close> (the earlier entries keep their order), \<open>U\<close> is a member by
  canonical string form, and a second \<open>offerHelp(U, T)\<close> on the resulting collection
  fails with NotAllowed and writes nothing.
\<close>

theorem offerHelp_appends_then_refuses:
  assumes "offerHelp tasks U tid = (Inr m, tasks')"
  shows "\<exists>task. readOne tasks tid = Some task
           \<and> tasks' = tasks(tid \<mapsto> task\<lparr>assisters := assisters task @ [U]\<rparr>)
           \<and> includesElem (map toString (assisters task @ [U])) (toString U)
           \<and> offerHelp tasks' U tid
               = (Inl (NotAllowedError ''Person is already an assister.''), tasks')"
proof (cases "readOne tasks tid")
  case None
  with assms show ?thesis by (simp add: offerHelp_missing)
next
  case (Some task)
  from assms Some have nr: "toString (requester task) \<noteq> toString U"
    and na: "U \<notin> set (assisters task)"
    and st: "tasks' = tasks(tid \<mapsto> task\<lparr>assisters := assisters task @ [U]\<rparr>)"
    by (auto simp: offerHelp_eq split: if_splits)
  have "readOne tasks' tid = Some (task\<lparr>assisters := assisters task @ [U]\<rparr>)"
    by (simp add: st readOne_def)
  from offerHelp_eq [OF this, of U] nr
  have "offerHelp tasks' U tid
          = (Inl (NotAllowedError ''Person is already an assister.''), tasks')"
    by simp
  with Some st show ?thesis
    by (simp add: includesElem_def)
qed

theorem offerHelp_appends_then_refuses_witness:
  "offerHelp (emptyStore(taskId \<mapsto> sinkTask\<lparr>assisters := [userB]\<rparr>)) userA taskId
     = (Inr ''Successfully offered help.'',
        emptyStore(taskId \<mapsto> sinkTask\<lparr>assisters := [userB, userA]\<rparr>))
   \<and> offerHelp (emptyStore(taskId \<mapsto> sinkTask\<lparr>assisters := [userB, userA]\<rparr>)) userA taskId
     = (Inl (NotAllowedError ''Person is already an assister.''),
        emptyStore(taskId \<mapsto> sinkTask\<lparr>assisters := [userB, userA]\<rparr>))"
proof -
  have h: "offerHelp (emptyStore(taskId \<mapsto> sinkTask\<lparr>assisters := [userB]\<rparr>)) userA taskId
     = (Inr ''Successfully offered help.'',
        emptyStore(taskId \<mapsto> sinkTask\<lparr>assisters := [userB, userA]\<rparr>))"
    by (simp add: offerHelp_eq [OF readOne_upd] example_defs)
  from offerHelp_appends_then_refuses [OF h] h show ?thesis
    by blast
qed

lemma remove1_once:
  "count_list xs x \<le> 1 \<Longrightarrow> x \<notin> set (remove1 x xs) \<and> remove1 x xs = filter (\<lambda>e. e \<noteq> x) xs"
proof (induction xs)
  case Nil
  then show ?case by simp
next
  case (Cons y ys)
  show ?case
  proof (cases "y = x")
    case True
    with Cons.prems have "count_list ys x = 0" by simp
    then have "x \<notin> set ys" by (simp add: count_list_0_iff)
    then have "filter (\<lambda>e. e \<noteq> x) ys = ys" by (auto simp: filter_id_conv)
    with True \<open>x \<notin> set ys\<close> show ?thesis by simp
  next
    case False
    with Cons show ?thesis by simp
  qed
qed

lemma retractHelp_eq:
  "readOne tasks tid = Some task \<Longrightarrow>
   retractHelp tasks a tid =
     (if toString (requester task) = toString a
      then (Inl (NotAllowedError ''Person is the requester.''), tasks)
      else if a \<notin> set (assisters task)
      then (Inl (NotAllowedError ''Person is not an assister.''), tasks)
      else (Inr ''Successfully retracted help offer.'',
            tasks(tid \<mapsto> task\<lparr>assisters := remove1 a (assisters task)\<rparr>)))"
  by (auto simp: retractHelp_def guard_defs updateOne_def applyPartial_assisters
      toString_eq_iff indexOf_map_toString indexOf_absent splice1_indexOf Let_def)

lemma retractHelp_missing:
  "readOne tasks tid = None \<Longrightarrow> retractHelp tasks a tid = (Inl (notExist tid), tasks)"
  by (simp add: retractHelp_def isNotRequester_def readOne_def)

lemma includes_toString:
  "includesElem (map toString xs) (toString x) \<longleftrightarrow> x \<in> set xs"
  by (auto simp: includesElem_def toString_eq_iff)

text \<open>
  C2 (as amended). For an existing task \<open>T\<close> and a user \<open>U\<close> who is not its requester,
  \<open>retractHelp(U, T)\<close> succeeds if and only if \<open>U\<close> is in \<open>assisters(T)\<close> by canonical
  string form, and fails with NotAllowed, writing nothing, otherwise. On success the
  first entry equal to \<open>U\<close> is removed and every other entry keeps its value and its
  place in the order. When \<open>U\<close> occurred at most once beforehand, \<open>U\<close> is no longer a
  member afterwards and the result is the array without \<open>U\<close>.
\<close>

theorem retractHelp_removes_first_entry:
  assumes "readOne tasks tid = Some task"
    and "toString (requester task) \<noteq> toString U"
  shows "((\<exists>m. fst (retractHelp tasks U tid) = Inr m)
            \<longleftrightarrow> includesElem (map toString (assisters task)) (toString U))
       \<and> (\<not> includesElem (map toString (assisters task)) (toString U) \<longrightarrow>
            retractHelp tasks U tid
              = (Inl (NotAllowedError ''Person is not an assister.''), tasks))
       \<and> (includesElem (map toString (assisters task)) (toString U) \<longrightarrow>
            retractHelp tasks U tid
              = (Inr ''Successfully retracted help offer.'',
                 tasks(tid \<mapsto> task\<lparr>assisters := remove1 U (assisters task)\<rparr>))
            \<and> (count_list (assisters task) U \<le> 1 \<longrightarrow>
                 \<not> includesElem (map toString (remove1 U (assisters task))) (toString U)
                 \<and> remove1 U (assisters task)
                     = filter (\<lambda>e. toString e \<noteq> toString U) (assisters task)))"
proof -
  note ex = assms(1)
  show ?thesis
  proof (cases "U \<in> set (assisters task)")
    case True
    with assms(2) show ?thesis
      by (simp add: retractHelp_eq [OF ex] includes_toString remove1_once toString_eq_iff)
  next
    case False
    with assms(2) show ?thesis
      by (simp add: retractHelp_eq [OF ex] includes_toString)
  qed
qed


text \<open>The amended C2 at the task with assisters \<open>[userA, userB]\<close>, retracting \<open>userA\<close>.\<close>

theorem retractHelp_removes_first_entry_witness:
  "readOne (emptyStore(taskId \<mapsto> sinkTask\<lparr>assisters := [userA, userB]\<rparr>)) taskId
     = Some (sinkTask\<lparr>assisters := [userA, userB]\<rparr>)
   \<and> toString (requester (sinkTask\<lparr>assisters := [userA, userB]\<rparr>)) \<noteq> toString userA
   \<and> count_list [userA, userB] userA \<le> 1
   \<and> retractHelp (emptyStore(taskId \<mapsto> sinkTask\<lparr>assisters := [userA, userB]\<rparr>)) userA taskId
       = (Inr ''Successfully retracted help offer.'',
          emptyStore(taskId \<mapsto> sinkTask\<lparr>assisters := [userB]\<rparr>))
   \<and> \<not> includesElem (map toString [userB]) (toString userA)"
proof -
  have h1: "readOne (emptyStore(taskId \<mapsto> sinkTask\<lparr>assisters := [userA, userB]\<rparr>)) taskId
              = Some (sinkTask\<lparr>assisters := [userA, userB]\<rparr>)"
    by (simp add: readOne_def)
  have h2: "toString (requester (sinkTask\<lparr>assisters := [userA, userB]\<rparr>)) \<noteq> toString userA"
    by (simp add: example_defs)
  have h3: "includesElem (map toString (assisters (sinkTask\<lparr>assisters := [userA, userB]\<rparr>)))
              (toString userA)"
    by (simp add: includesElem_def)
  have h4: "count_list (assisters (sinkTask\<lparr>assisters := [userA, userB]\<rparr>)) userA \<le> 1"
    by (simp add: example_defs)
  note t = retractHelp_removes_first_entry [OF h1 h2]
  note t3 = t [THEN conjunct2, THEN conjunct2, THEN mp, OF h3]
  note a = t3 [THEN conjunct1]
  note c = t3 [THEN conjunct2, THEN mp, OF h4, THEN conjunct1]
  have r: "remove1 userA (assisters (sinkTask\<lparr>assisters := [userA, userB]\<rparr>)) = [userB]"
    by simp
  have k: "count_list [userA, userB] userA \<le> 1"
    by (simp add: example_defs)
  from a r have a': "retractHelp (emptyStore(taskId \<mapsto> sinkTask\<lparr>assisters := [userA, userB]\<rparr>))
      userA taskId
       = (Inr ''Successfully retracted help offer.'',
          emptyStore(taskId \<mapsto> sinkTask\<lparr>assisters := [userB]\<rparr>))"
    by simp
  from c r have c': "\<not> includesElem (map toString [userB]) (toString userA)"
    by simp
  from h1 h2 k a' c' show ?thesis
    by (intro conjI)
qed



text \<open>
  C2 as stated fails where \<open>U\<close> occurs twice: a generic update may store
  \<open>assisters = [userA, userA]\<close>, and after the successful \<open>retractHelp\<close> the user is
  still a member.
\<close>

theorem retractHelp_duplicate_counterexample:
  "snd (update (emptyStore(taskId \<mapsto> sinkTask)) taskId
          (emptyPartial\<lparr>p_assisters := Some [userA, userA]\<rparr>))
     = emptyStore(taskId \<mapsto> sinkTask\<lparr>assisters := [userA, userA]\<rparr>)
   \<and> toString (requester (sinkTask\<lparr>assisters := [userA, userA]\<rparr>)) \<noteq> toString userA
   \<and> retractHelp (emptyStore(taskId \<mapsto> sinkTask\<lparr>assisters := [userA, userA]\<rparr>)) userA taskId
       = (Inr ''Successfully retracted help offer.'',
          emptyStore(taskId \<mapsto> sinkTask\<lparr>assisters := [userA]\<rparr>))
   \<and> includesElem (map toString (assisters (sinkTask\<lparr>assisters := [userA]\<rparr>))) (toString userA)"
proof -
  have a: "snd (update (emptyStore(taskId \<mapsto> sinkTask)) taskId
          (emptyPartial\<lparr>p_assisters := Some [userA, userA]\<rparr>))
     = emptyStore(taskId \<mapsto> sinkTask\<lparr>assisters := [userA, userA]\<rparr>)"
    by (simp add: update_eq emptyPartial_requester updateOne_eq [OF readOne_upd]
        applyPartial_assisters)
  have b: "toString (requester (sinkTask\<lparr>assisters := [userA, userA]\<rparr>)) \<noteq> toString userA"
    by (simp add: example_defs)
  have c: "retractHelp (emptyStore(taskId \<mapsto> sinkTask\<lparr>assisters := [userA, userA]\<rparr>)) userA taskId
       = (Inr ''Successfully retracted help offer.'',
          emptyStore(taskId \<mapsto> sinkTask\<lparr>assisters := [userA]\<rparr>))"
    using b by (simp add: retractHelp_eq [OF readOne_upd])
  have d: "includesElem (map toString (assisters (sinkTask\<lparr>assisters := [userA]\<rparr>))) (toString userA)"
    by (simp add: includesElem_def)
  from a b c d show ?thesis by (intro conjI)
qed

lemma complete_eq:
  "readOne tasks tid = Some task \<Longrightarrow>
   complete tasks tid a now =
     (Inr ''Successfully completed task.'',
      tasks(tid \<mapsto> task\<lparr>completed := True, completionDate := Some now, completer := a\<rparr>))"
  by (simp add: complete_def updateOne_eq applyPartial_complete)

lemma complete_missing:
  "readOne tasks tid = None \<Longrightarrow> complete tasks tid a now = (Inl (notExist tid), tasks)"
  by (simp add: complete_def)

lemma view_eq:
  "readOne tasks tid = Some task \<Longrightarrow>
   view tasks v tid =
     (Inr ''Successfully viewed task.'',
      if v \<in> set (viewed task) then tasks
      else tasks(tid \<mapsto> task\<lparr>viewed := viewed task @ [v]\<rparr>))"
  by (simp add: view_def updateOne_eq applyPartial_viewed includes_toString push_def)

lemma view_missing:
  "readOne tasks tid = None \<Longrightarrow> view tasks v tid = (Inl (notExist tid), tasks)"
  by (simp add: view_def)

lemma delete_missing:
  "readOne tasks tid = None \<Longrightarrow> delete tasks tid = (Inr ''Task deleted successfully!'', tasks)"
  by (simp add: delete_def deleteOne_def readOne_def fun_upd_idem)

lemma updateOne_missing:
  "readOne tasks tid = None \<Longrightarrow> updateOne tasks tid u = tasks"
  by (simp add: updateOne_def readOne_def)

text \<open>
  C3 (as amended). For an identifier that resolves to no existing task, \<open>offerHelp\<close>,
  \<open>retractHelp\<close>, \<open>complete\<close> and \<open>view\<close> fetch the task first and fail with NotFound,
  writing nothing. \<open>update\<close> and \<open>delete\<close> do not fetch: \<open>update\<close> answers by its
  sanitisation alone (success, or NotAllowed when the partial holds \<open>requester\<close>) and
  \<open>delete\<close> acknowledges success; both leave the collection as it was.
\<close>

theorem missing_task_operations:
  assumes "readOne tasks tid = None"
  shows "offerHelp tasks a tid = (Inl (notExist tid), tasks)
       \<and> retractHelp tasks a tid = (Inl (notExist tid), tasks)
       \<and> complete tasks tid c now = (Inl (notExist tid), tasks)
       \<and> view tasks v tid = (Inl (notExist tid), tasks)
       \<and> isNotFound (notExist tid)
       \<and> update tasks tid u =
           (if p_requester u = None then Inr ''Task successfully updated!''
            else Inl (NotAllowedError
                   (''Cannot update '' @ [CHR 0x27] @ ''requester'' @ [CHR 0x27] @ '' field!'')),
            tasks)
       \<and> delete tasks tid = (Inr ''Task deleted successfully!'', tasks)"
proof -
  note none = assms
  have "isNotFound (notExist tid)" by (simp add: notExist_def)
  moreover have "update tasks tid u =
           (if p_requester u = None then Inr ''Task successfully updated!''
            else Inl (NotAllowedError
                   (''Cannot update '' @ [CHR 0x27] @ ''requester'' @ [CHR 0x27] @ '' field!'')),
            tasks)"
    by (simp add: update_eq updateOne_missing [OF assms])
  ultimately show ?thesis
    by (simp only: offerHelp_missing [OF none] retractHelp_missing [OF none]
        complete_missing [OF assms] view_missing [OF assms] delete_missing [OF assms] simp_thms)
qed

text \<open>The amended C3 on the empty collection.\<close>

theorem missing_task_operations_witness:
  "readOne emptyStore taskId = None
   \<and> offerHelp emptyStore userA taskId = (Inl (NotFoundError ''Task t1 does not exist!''), emptyStore)
   \<and> retractHelp emptyStore userA taskId = (Inl (NotFoundError ''Task t1 does not exist!''), emptyStore)
   \<and> complete emptyStore taskId (Some userA) 1735000000000
        = (Inl (NotFoundError ''Task t1 does not exist!''), emptyStore)
   \<and> view emptyStore userA taskId = (Inl (NotFoundError ''Task t1 does not exist!''), emptyStore)"
proof -
  have h: "readOne emptyStore taskId = None"
    by (simp add: readOne_def emptyStore_def)
  have n: "notExist taskId = NotFoundError ''Task t1 does not exist!''"
    by (simp add: notExist_def taskId_def)
  note t = missing_task_operations [OF h, of userA "Some userA" 1735000000000 userA emptyPartial]
  from h t [THEN conjunct1] t [THEN conjunct2, THEN conjunct1]
    t [THEN conjunct2, THEN conjunct2, THEN conjunct1]
    t [THEN conjunct2, THEN conjunct2, THEN conjunct2, THEN conjunct1]
  show ?thesis unfolding n by (intro conjI)
qed

text \<open>
  C3 as stated fails for \<open>update\<close> and \<open>delete\<close>: on the empty collection both return
  their success acknowledgment and no NotFound error.
\<close>

theorem update_missing_task_counterexample:
  "readOne emptyStore taskId = None
   \<and> update emptyStore taskId (emptyPartial\<lparr>p_title := Some ''new''\<rparr>)
       = (Inr ''Task successfully updated!'', emptyStore)
   \<and> delete emptyStore taskId = (Inr ''Task deleted successfully!'', emptyStore)"
proof -
  have h: "readOne emptyStore taskId = None"
    by (simp add: readOne_def emptyStore_def)
  have u: "update emptyStore taskId (emptyPartial\<lparr>p_title := Some ''new''\<rparr>)
       = (Inr ''Task successfully updated!'', emptyStore)"
    by (simp add: update_eq emptyPartial_requester updateOne_missing [OF h])
  from h u delete_missing [OF h] show ?thesis by (intro conjI)
qed

text \<open>
  C5. For an existing task \<open>T\<close> and an optional user \<open>A\<close>, \<open>complete(T, A)\<close> succeeds
  whatever the task holds, and afterwards \<open>completed = true\<close>, \<open>completionDate\<close> is the
  time of the call and \<open>completer = A\<close>. A second \<open>complete\<close> on the completed task is
  accepted and overwrites \<open>completionDate\<close> and \<open>completer\<close>.
\<close>

theorem complete_unconditional:
  assumes "readOne tasks tid = Some task"
  shows "complete tasks tid A now
           = (Inr ''Successfully completed task.'',
              tasks(tid \<mapsto> task\<lparr>completed := True, completionDate := Some now, completer := A\<rparr>))
       \<and> complete (tasks(tid \<mapsto> task\<lparr>completed := True, completionDate := Some now,
                                      completer := A\<rparr>)) tid A' now'
           = (Inr ''Successfully completed task.'',
              tasks(tid \<mapsto> task\<lparr>completed := True, completionDate := Some now',
                                  completer := A'\<rparr>))"
  by (simp add: complete_eq [OF assms] complete_eq [OF readOne_upd])

text \<open>C5 on the task "Fix sink": completed by \<open>userA\<close>, then again with no completer.\<close>

theorem complete_unconditional_witness:
  "readOne (emptyStore(taskId \<mapsto> sinkTask)) taskId = Some sinkTask
   \<and> complete (emptyStore(taskId \<mapsto> sinkTask)) taskId (Some userA) 1735000000000
       = (Inr ''Successfully completed task.'',
          emptyStore(taskId \<mapsto> sinkTask\<lparr>completed := True,
             completionDate := Some 1735000000000, completer := Some userA\<rparr>))
   \<and> complete (emptyStore(taskId \<mapsto> sinkTask\<lparr>completed := True,
             completionDate := Some 1735000000000, completer := Some userA\<rparr>))
          taskId None 1735000000777
       = (Inr ''Successfully completed task.'',
          emptyStore(taskId \<mapsto> sinkTask\<lparr>completed := True,
             completionDate := Some 1735000000777, completer := None\<rparr>))"
proof -
  have h: "readOne (emptyStore(taskId \<mapsto> sinkTask)) taskId = Some sinkTask"
    by (rule readOne_upd)
  note t = complete_unconditional [OF h, of "Some userA" 1735000000000 None 1735000000777]
  from h t show ?thesis by simp
qed

text \<open>
  C8. For an existing task \<open>T\<close>, \<open>offerHelp\<close> by a user whose canonical string form is
  that of \<open>requester(T)\<close>, in particular by the requester, fails with NotAllowed
  whatever the task holds, and writes nothing.
\<close>

theorem offerHelp_by_requester_refused:
  assumes "readOne tasks tid = Some task"
    and "toString U = toString (requester task)"
  shows "offerHelp tasks U tid = (Inl (NotAllowedError ''Person is the requester.''), tasks)
       \<and> offerHelp tasks (requester task) tid
           = (Inl (NotAllowedError ''Person is the requester.''), tasks)
       \<and> isNotAllowed (NotAllowedError ''Person is the requester.'')"
  using assms by (simp add: offerHelp_def isNotRequester_def)

text \<open>C8 on a task that already has an assister: the requester \<open>userR\<close> is refused.\<close>

theorem offerHelp_by_requester_refused_witness:
  "readOne (emptyStore(taskId \<mapsto> sinkTask\<lparr>assisters := [userA]\<rparr>)) taskId
     = Some (sinkTask\<lparr>assisters := [userA]\<rparr>)
   \<and> toString userR = toString (requester (sinkTask\<lparr>assisters := [userA]\<rparr>))
   \<and> offerHelp (emptyStore(taskId \<mapsto> sinkTask\<lparr>assisters := [userA]\<rparr>)) userR taskId
       = (Inl (NotAllowedError ''Person is the requester.''),
          emptyStore(taskId \<mapsto> sinkTask\<lparr>assisters := [userA]\<rparr>))"
proof -
  have h1: "readOne (emptyStore(taskId \<mapsto> sinkTask\<lparr>assisters := [userA]\<rparr>)) taskId
     = Some (sinkTask\<lparr>assisters := [userA]\<rparr>)"
    by (rule readOne_upd)
  have h2: "toString userR = toString (requester (sinkTask\<lparr>assisters := [userA]\<rparr>))"
    by (simp add: sinkTask_def)
  from h1 h2 offerHelp_by_requester_refused [OF h1 h2, THEN conjunct1] show ?thesis
    by (intro conjI)
qed

lemma create_eq:
  "readOne tasks newId = None \<Longrightarrow>
   create tasks req ttl descr dl fls newId =
     (Inr (''Task successfully created!'', newId,
           Some \<lparr>requester = req, title = ttl, description = descr, deadline = dl,
                 files = (case fls of None \<Rightarrow> [] | Some f \<Rightarrow> f),
                 assisters = [], viewed = [], completed = False,
                 completionDate = None, completer = None\<rparr>),
      tasks(newId \<mapsto>
           \<lparr>requester = req, title = ttl, description = descr, deadline = dl,
            files = (case fls of None \<Rightarrow> [] | Some f \<Rightarrow> f),
            assisters = [], viewed = [], completed = False,
            completionDate = None, completer = None\<rparr>))"
  by (simp add: create_def createOne_def readOne_def)

lemma create_used:
  "readOne tasks newId = Some other \<Longrightarrow>
   create tasks req ttl descr dl fls newId = (Inl StorageError, tasks)"
  by (simp add: create_def createOne_def readOne_def)

text \<open>
  C9. \<open>create(requester, title, description, deadline, files)\<close>, with the identifier
  the store assigns not yet in use, succeeds and stores a task with the given
  requester, title, description, deadline and files (\<open>[]\<close> when absent), empty
  \<open>assisters\<close> and \<open>viewed\<close>, \<open>completed = false\<close>, \<open>completionDate = null\<close> and
  \<open>completer = null\<close>; it returns the new identifier together with the task read back.
\<close>

theorem create_fresh_task:
  assumes "readOne tasks newId = None"
  shows "create tasks req ttl descr dl fls newId =
     (Inr (''Task successfully created!'', newId,
           Some \<lparr>requester = req, title = ttl, description = descr, deadline = dl,
                 files = (case fls of None \<Rightarrow> [] | Some f \<Rightarrow> f),
                 assisters = [], viewed = [], completed = False,
                 completionDate = None, completer = None\<rparr>),
      tasks(newId \<mapsto>
           \<lparr>requester = req, title = ttl, description = descr, deadline = dl,
            files = (case fls of None \<Rightarrow> [] | Some f \<Rightarrow> f),
            assisters = [], viewed = [], completed = False,
            completionDate = None, completer = None\<rparr>))"
  using assms by (rule create_eq)

text \<open>C9 on the empty collection: the scenario's task "Fix sink".\<close>

theorem create_fresh_task_witness:
  "readOne emptyStore taskId = None
   \<and> create emptyStore userR ''Fix sink'' ''Kitchen tap leaks'' 1735689600000 None taskId
       = (Inr (''Task successfully created!'', taskId, Some sinkTask),
          emptyStore(taskId \<mapsto> sinkTask))"
proof -
  have h: "readOne emptyStore taskId = None"
    by (simp add: readOne_def emptyStore_def)
  from h create_fresh_task [OF h, of userR "''Fix sink''" "''Kitchen tap leaks''" 1735689600000 None]
  show ?thesis by (simp add: sinkTask_def)
qed

text \<open>
  C10. \<open>delete(id)\<close> is unconditional: for every identifier, existing or not, it
  performs the hard delete with no check and returns its success acknowledgment;
  afterwards \<open>getTaskById(id)\<close> fails with NotFound.
\<close>

theorem delete_unconditional:
  "delete tasks tid = (Inr ''Task deleted successfully!'', tasks(tid := None))
   \<and> getTaskById (snd (delete tasks tid)) tid = Inl (NotFoundError ''Task not found!'')"
  by (simp add: delete_def deleteOne_def getTaskById_def readOne_def)

text \<open>
  C6. \<open>update(T, partial)\<close> fails with NotAllowed whenever the partial holds the field
  \<open>requester\<close>, and then the collection is unchanged. A partial without \<open>requester\<close>
  succeeds; on an existing task it keeps \<open>requester\<close> and overwrites each supplied
  field wholesale, every other field being kept.
\<close>

theorem update_requester_denylist:
  "(p_requester u \<noteq> None \<longrightarrow>
      update tasks tid u
        = (Inl (NotAllowedError
                 (''Cannot update '' @ [CHR 0x27] @ ''requester'' @ [CHR 0x27] @ '' field!'')),
           tasks))
   \<and> (p_requester u = None \<longrightarrow>
        fst (update tasks tid u) = Inr ''Task successfully updated!''
        \<and> (\<forall>task. readOne tasks tid = Some task \<longrightarrow>
              snd (update tasks tid u)
                = tasks(tid \<mapsto>
                    \<lparr>requester = requester task,
                     title = supplied (p_title u) (title task),
                     description = supplied (p_description u) (description task),
                     deadline = supplied (p_deadline u) (deadline task),
                     files = supplied (p_files u) (files task),
                     assisters = supplied (p_assisters u) (assisters task),
                     viewed = supplied (p_viewed u) (viewed task),
                     completed = supplied (p_completed u) (completed task),
                     completionDate = supplied (p_completionDate u) (completionDate task),
                     completer = supplied (p_completer u) (completer task)\<rparr>)))"
  by (simp add: update_eq updateOne_eq applyPartial_def supplied_def)

text \<open>C6 on the task "Fix sink": \<open>{requester: userA}\<close> is refused, \<open>{title: "new"}\<close> applied.\<close>

theorem update_requester_denylist_witness:
  "update (emptyStore(taskId \<mapsto> sinkTask)) taskId (emptyPartial\<lparr>p_requester := Some userA\<rparr>)
     = (Inl (NotAllowedError
              (''Cannot update '' @ [CHR 0x27] @ ''requester'' @ [CHR 0x27] @ '' field!'')),
        emptyStore(taskId \<mapsto> sinkTask))
   \<and> update (emptyStore(taskId \<mapsto> sinkTask)) taskId (emptyPartial\<lparr>p_title := Some ''new''\<rparr>)
     = (Inr ''Task successfully updated!'',
        emptyStore(taskId \<mapsto> sinkTask\<lparr>title := ''new''\<rparr>))
   \<and> requester (sinkTask\<lparr>title := ''new''\<rparr>) = requester sinkTask"
proof -
  have r1: "p_requester (emptyPartial\<lparr>p_requester := Some userA\<rparr>) \<noteq> None"
    by simp
  have r2: "p_requester (emptyPartial\<lparr>p_title := Some ''new''\<rparr>) = None"
    by (simp add: emptyPartial_def)
  have h: "readOne (emptyStore(taskId \<mapsto> sinkTask)) taskId = Some sinkTask"
    by (rule readOne_upd)
  note t1 = update_requester_denylist
    [of "emptyPartial\<lparr>p_requester := Some userA\<rparr>" "emptyStore(taskId \<mapsto> sinkTask)" taskId,
      THEN conjunct1, THEN mp, OF r1]
  note t2 = update_requester_denylist
    [of "emptyPartial\<lparr>p_title := Some ''new''\<rparr>" "emptyStore(taskId \<mapsto> sinkTask)" taskId,
      THEN conjunct2, THEN mp, OF r2]
  note t3 = t2 [THEN conjunct2, THEN spec, THEN mp, OF h]
  have "update (emptyStore(taskId \<mapsto> sinkTask)) taskId (emptyPartial\<lparr>p_title := Some ''new''\<rparr>)
     = (Inr ''Task successfully updated!'',
        emptyStore(taskId \<mapsto> sinkTask\<lparr>title := ''new''\<rparr>))"
    using t2 [THEN conjunct1] t3
    by (simp add: prod_eq_iff emptyPartial_def supplied_def sinkTask_def)
  with t1 show ?thesis by simp
qed

lemma count_list_member: "x \<in> set xs \<Longrightarrow> 1 \<le> count_list xs x"
  by (induction xs) auto

lemma count_list_snoc_new: "x \<notin> set xs \<Longrightarrow> count_list (xs @ [x]) x = 1"
  by (induction xs) auto

text \<open>
  C7 (as amended). For an existing task \<open>T\<close> and a user \<open>U\<close>, \<open>view(U, T)\<close> succeeds; when
  \<open>U\<close> is already in \<open>viewed(T)\<close> by canonical string form it writes nothing, and
  otherwise it appends \<open>U\<close>. A second \<open>view(U, T)\<close> writes nothing. After the two calls
  every earlier entry of \<open>viewed\<close> is still there, in place, and the number of
  occurrences of \<open>U\<close> is the earlier number, or one when there was none: exactly one
  when \<open>U\<close> occurred at most once beforehand.
\<close>

theorem view_idempotent:
  assumes "readOne tasks tid = Some task"
  shows "view tasks U tid
           = (Inr ''Successfully viewed task.'',
              if includesElem (map toString (viewed task)) (toString U) then tasks
              else tasks(tid \<mapsto> task\<lparr>viewed := viewed task @ [U]\<rparr>))
       \<and> view (snd (view tasks U tid)) U tid
           = (Inr ''Successfully viewed task.'', snd (view tasks U tid))
       \<and> (\<exists>task2. readOne (snd (view (snd (view tasks U tid)) U tid)) tid = Some task2
             \<and> viewed task2
                 = viewed task
                   @ (if includesElem (map toString (viewed task)) (toString U) then [] else [U])
             \<and> count_list (viewed task2) U = max 1 (count_list (viewed task) U)
             \<and> (count_list (viewed task) U \<le> 1 \<longrightarrow> count_list (viewed task2) U = 1))"
proof (cases "U \<in> set (viewed task)")
  case True
  have first: "view tasks U tid = (Inr ''Successfully viewed task.'', tasks)"
    using True by (simp add: view_eq [OF assms])
  from count_list_member [OF True]
  have "max 1 (count_list (viewed task) U) = count_list (viewed task) U"
    and "count_list (viewed task) U \<le> 1 \<longrightarrow> count_list (viewed task) U = 1"
    by simp_all
  with True assms first show ?thesis
    by (simp add: includes_toString)
next
  case False
  let ?t = "task\<lparr>viewed := viewed task @ [U]\<rparr>"
  let ?s = "tasks(tid \<mapsto> ?t)"
  have first: "view tasks U tid = (Inr ''Successfully viewed task.'', ?s)"
    using False by (simp add: view_eq [OF assms])
  have r: "readOne ?s tid = Some ?t" by (rule readOne_upd)
  have second: "view ?s U tid = (Inr ''Successfully viewed task.'', ?s)"
    by (simp add: view_eq [OF r])
  from False have c0: "count_list (viewed task) U = 0"
    by (simp add: count_list_0_iff)
  from False first second r c0 show ?thesis
    by (simp add: includes_toString count_list_snoc_new)
qed

text \<open>The amended C7 on a task viewed by \<open>userB\<close> only: \<open>userA\<close> views it twice.\<close>

theorem view_idempotent_witness:
  "readOne (emptyStore(taskId \<mapsto> sinkTask\<lparr>viewed := [userB]\<rparr>)) taskId
     = Some (sinkTask\<lparr>viewed := [userB]\<rparr>)
   \<and> view (emptyStore(taskId \<mapsto> sinkTask\<lparr>viewed := [userB]\<rparr>)) userA taskId
       = (Inr ''Successfully viewed task.'',
          emptyStore(taskId \<mapsto> sinkTask\<lparr>viewed := [userB, userA]\<rparr>))
   \<and> view (emptyStore(taskId \<mapsto> sinkTask\<lparr>viewed := [userB, userA]\<rparr>)) userA taskId
       = (Inr ''Successfully viewed task.'',
          emptyStore(taskId \<mapsto> sinkTask\<lparr>viewed := [userB, userA]\<rparr>))
   \<and> count_list [userB, userA] userA = 1"
proof -
  have h: "readOne (emptyStore(taskId \<mapsto> sinkTask\<lparr>viewed := [userB]\<rparr>)) taskId
     = Some (sinkTask\<lparr>viewed := [userB]\<rparr>)"
    by (rule readOne_upd)
  have n: "\<not> includesElem (map toString (viewed (sinkTask\<lparr>viewed := [userB]\<rparr>))) (toString userA)"
    by (simp add: includesElem_def example_defs)
  note t = view_idempotent [OF h, of userA]
  from t [THEN conjunct1] n
  have a: "view (emptyStore(taskId \<mapsto> sinkTask\<lparr>viewed := [userB]\<rparr>)) userA taskId
       = (Inr ''Successfully viewed task.'',
          emptyStore(taskId \<mapsto> sinkTask\<lparr>viewed := [userB, userA]\<rparr>))"
    by simp
  from t [THEN conjunct2, THEN conjunct1] a
  have b: "view (emptyStore(taskId \<mapsto> sinkTask\<lparr>viewed := [userB, userA]\<rparr>)) userA taskId
       = (Inr ''Successfully viewed task.'',
          emptyStore(taskId \<mapsto> sinkTask\<lparr>viewed := [userB, userA]\<rparr>))"
    by simp
  have c: "count_list [userB, userA] userA = 1"
    by (simp add: example_defs)
  from h a b c show ?thesis by (intro conjI)
qed

text \<open>
  C7 as stated fails where \<open>U\<close> already occurs twice: a generic update may store
  \<open>viewed = [userA, userA]\<close>; \<open>view\<close> then writes nothing, and both occurrences stay.
\<close>

theorem view_duplicate_counterexample:
  "snd (update (emptyStore(taskId \<mapsto> sinkTask)) taskId
          (emptyPartial\<lparr>p_viewed := Some [userA, userA]\<rparr>))
     = emptyStore(taskId \<mapsto> sinkTask\<lparr>viewed := [userA, userA]\<rparr>)
   \<and> view (emptyStore(taskId \<mapsto> sinkTask\<lparr>viewed := [userA, userA]\<rparr>)) userA taskId
       = (Inr ''Successfully viewed task.'',
          emptyStore(taskId \<mapsto> sinkTask\<lparr>viewed := [userA, userA]\<rparr>))
   \<and> count_list (viewed (sinkTask\<lparr>viewed := [userA, userA]\<rparr>)) userA = 2"
proof -
  have a: "snd (update (emptyStore(taskId \<mapsto> sinkTask)) taskId
          (emptyPartial\<lparr>p_viewed := Some [userA, userA]\<rparr>))
     = emptyStore(taskId \<mapsto> sinkTask\<lparr>viewed := [userA, userA]\<rparr>)"
    by (simp add: update_eq emptyPartial_requester updateOne_eq [OF readOne_upd]
        applyPartial_viewed)
  have b: "view (emptyStore(taskId \<mapsto> sinkTask\<lparr>viewed := [userA, userA]\<rparr>)) userA taskId
       = (Inr ''Successfully viewed task.'',
          emptyStore(taskId \<mapsto> sinkTask\<lparr>viewed := [userA, userA]\<rparr>))"
    by (simp add: view_eq [OF readOne_upd])
  have c: "count_list (viewed (sinkTask\<lparr>viewed := [userA, userA]\<rparr>)) userA = 2"
    by simp
  from a b c show ?thesis by (intro conjI)
qed

lemma isCompleted_upd:
  "isCompleted (tasks(t \<mapsto> x)) tid = (if t = tid then completed x else isCompleted tasks tid)"
  by (simp add: isCompleted_def readOne_def)

lemma isCompleted_Some:
  "readOne tasks tid = Some task \<Longrightarrow> isCompleted tasks tid = completed task"
  by (simp add: isCompleted_def)

lemma isCompleted_exists: "isCompleted tasks tid \<Longrightarrow> \<exists>task. readOne tasks tid = Some task"
  by (cases "readOne tasks tid") (simp_all add: isCompleted_def)

lemma create_keeps_completed:
  assumes "isCompleted tasks tid"
  shows "isCompleted (snd (create tasks req ttl descr dl fls newId)) tid"
proof (cases "readOne tasks newId")
  case None
  with isCompleted_exists [OF assms] have "newId \<noteq> tid" by auto
  with assms show ?thesis by (simp add: create_eq [OF None] isCompleted_upd)
next
  case (Some other)
  with assms show ?thesis by (simp add: create_used)
qed

lemma offerHelp_keeps_completed:
  assumes "isCompleted tasks tid"
  shows "isCompleted (snd (offerHelp tasks a t)) tid"
proof (cases "readOne tasks t")
  case None
  with assms show ?thesis by (simp add: offerHelp_missing)
next
  case (Some x)
  with assms show ?thesis
    by (auto simp: offerHelp_eq [OF Some] isCompleted_upd isCompleted_Some)
qed

lemma retractHelp_keeps_completed:
  assumes "isCompleted tasks tid"
  shows "isCompleted (snd (retractHelp tasks a t)) tid"
proof (cases "readOne tasks t")
  case None
  with assms show ?thesis by (simp add: retractHelp_missing)
next
  case (Some x)
  with assms show ?thesis
    by (auto simp: retractHelp_eq [OF Some] isCompleted_upd isCompleted_Some)
qed

lemma complete_keeps_completed:
  assumes "isCompleted tasks tid"
  shows "isCompleted (snd (complete tasks t c now)) tid"
proof (cases "readOne tasks t")
  case None
  with assms show ?thesis by (simp add: complete_missing)
next
  case (Some x)
  with assms show ?thesis
    by (simp add: complete_eq [OF Some] isCompleted_upd)
qed

lemma view_keeps_completed:
  assumes "isCompleted tasks tid"
  shows "isCompleted (snd (view tasks v t)) tid"
proof (cases "readOne tasks t")
  case None
  with assms show ?thesis by (simp add: view_missing)
next
  case (Some x)
  with assms show ?thesis
    by (auto simp: view_eq [OF Some] isCompleted_upd isCompleted_Some)
qed

lemma update_other_keeps_completed:
  assumes "isCompleted tasks tid" and "t \<noteq> tid"
  shows "isCompleted (snd (update tasks t u)) tid"
proof (cases "readOne tasks t")
  case None
  with assms show ?thesis by (simp add: update_eq updateOne_missing)
next
  case (Some x)
  with assms show ?thesis
    by (simp add: update_eq updateOne_eq [OF Some] isCompleted_upd)
qed

lemma update_same_completed:
  assumes "isCompleted tasks tid"
  shows "isCompleted (snd (update tasks tid u)) tid
           \<longleftrightarrow> \<not> (p_requester u = None \<and> p_completed u = Some False)"
proof -
  from isCompleted_exists [OF assms] obtain task where ex: "readOne tasks tid = Some task"
    by blast
  with assms have c: "completed task" by (simp add: isCompleted_Some)
  show ?thesis
  proof (cases "p_requester u")
    case None
    with c show ?thesis
      by (cases "p_completed u")
        (simp_all add: update_eq updateOne_eq [OF ex] isCompleted_upd applyPartial_def supplied_def)
  next
    case (Some r)
    with assms show ?thesis by (simp add: update_eq)
  qed
qed
lemma applyPartial_completed:
  "applyPartial (emptyPartial\<lparr>p_completed := Some b\<rparr>) task = task\<lparr>completed := b\<rparr>"
  by (simp add: applyPartial_def emptyPartial_def supplied_def)

text \<open>
  C4 (as amended). Once a task's \<open>completed\<close> flag is set, no \<open>create\<close>, \<open>offerHelp\<close>,
  \<open>retractHelp\<close>, \<open>complete\<close> or \<open>view\<close>, on this or any other task, and no \<open>update\<close>
  of another task resets it. An \<open>update\<close> of the task itself resets the flag exactly
  when its partial passes sanitisation and supplies \<open>completed = false\<close>.
\<close>

theorem completed_kept:
  assumes "isCompleted tasks tid"
  shows "isCompleted (snd (create tasks req ttl descr dl fls newId)) tid
       \<and> isCompleted (snd (offerHelp tasks a1 t1)) tid
       \<and> isCompleted (snd (retractHelp tasks a2 t2)) tid
       \<and> isCompleted (snd (complete tasks t3 c now)) tid
       \<and> isCompleted (snd (view tasks v t4)) tid
       \<and> (t5 \<noteq> tid \<longrightarrow> isCompleted (snd (update tasks t5 u)) tid)
       \<and> (isCompleted (snd (update tasks tid u)) tid
            \<longleftrightarrow> \<not> (p_requester u = None \<and> p_completed u = Some False))"
  using create_keeps_completed [OF assms] offerHelp_keeps_completed [OF assms]
    retractHelp_keeps_completed [OF assms] complete_keeps_completed [OF assms]
    view_keeps_completed [OF assms] update_other_keeps_completed [OF assms]
    update_same_completed [OF assms]
  by blast

text \<open>
  The amended C4 on the completed task "Fix sink": still completed after an offer, a
  view and a change of title; no longer after \<open>update\<close> with \<open>{completed: false}\<close>.
\<close>

theorem completed_kept_witness:
  "isCompleted (emptyStore(taskId \<mapsto> sinkTask\<lparr>completed := True, completionDate := Some 1735000000000,
        completer := Some userA\<rparr>)) taskId
   \<and> isCompleted (snd (offerHelp (emptyStore(taskId \<mapsto> sinkTask\<lparr>completed := True, completionDate := Some 1735000000000,
        completer := Some userA\<rparr>)) userB taskId)) taskId
   \<and> isCompleted (snd (view (emptyStore(taskId \<mapsto> sinkTask\<lparr>completed := True, completionDate := Some 1735000000000,
        completer := Some userA\<rparr>)) userB taskId)) taskId
   \<and> isCompleted (snd (update (emptyStore(taskId \<mapsto> sinkTask\<lparr>completed := True, completionDate := Some 1735000000000,
        completer := Some userA\<rparr>)) taskId
         (emptyPartial\<lparr>p_title := Some ''new''\<rparr>))) taskId
   \<and> \<not> isCompleted (snd (update (emptyStore(taskId \<mapsto> sinkTask\<lparr>completed := True, completionDate := Some 1735000000000,
        completer := Some userA\<rparr>)) taskId
         (emptyPartial\<lparr>p_completed := Some False\<rparr>))) taskId"
proof -
  have h: "isCompleted (emptyStore(taskId \<mapsto> sinkTask\<lparr>completed := True, completionDate := Some 1735000000000,
        completer := Some userA\<rparr>)) taskId"
    by (simp add: isCompleted_upd)
  note t = completed_kept [OF h]
  note offer = t [THEN conjunct2, THEN conjunct1]
  note viewing = t [THEN conjunct2, THEN conjunct2, THEN conjunct2, THEN conjunct2, THEN conjunct1]
  note upd = t [THEN conjunct2, THEN conjunct2, THEN conjunct2, THEN conjunct2, THEN conjunct2,
      THEN conjunct2]
  have keep: "isCompleted (snd (update (emptyStore(taskId \<mapsto> sinkTask\<lparr>completed := True, completionDate := Some 1735000000000,
        completer := Some userA\<rparr>)) taskId
         (emptyPartial\<lparr>p_title := Some ''new''\<rparr>))) taskId"
    by (simp add: upd emptyPartial_def)
  have reset: "\<not> isCompleted (snd (update (emptyStore(taskId \<mapsto> sinkTask\<lparr>completed := True, completionDate := Some 1735000000000,
        completer := Some userA\<rparr>)) taskId
         (emptyPartial\<lparr>p_completed := Some False\<rparr>))) taskId"
    by (simp add: upd emptyPartial_def)
  from h offer viewing keep reset show ?thesis by (intro conjI)
qed

text \<open>
  C4 as stated fails for \<open>update\<close>: the task completed by \<open>complete\<close> is set back to
  \<open>completed = false\<close> by \<open>update\<close> with \<open>{completed: false}\<close>.
\<close>

theorem update_resets_completed_counterexample:
  "complete (emptyStore(taskId \<mapsto> sinkTask)) taskId (Some userA) 1735000000000
     = (Inr ''Successfully completed task.'', emptyStore(taskId \<mapsto> sinkTask\<lparr>completed := True, completionDate := Some 1735000000000,
        completer := Some userA\<rparr>))
   \<and> isCompleted (emptyStore(taskId \<mapsto> sinkTask\<lparr>completed := True, completionDate := Some 1735000000000,
        completer := Some userA\<rparr>)) taskId
   \<and> update (emptyStore(taskId \<mapsto> sinkTask\<lparr>completed := True, completionDate := Some 1735000000000,
        completer := Some userA\<rparr>)) taskId (emptyPartial\<lparr>p_completed := Some False\<rparr>)
       = (Inr ''Task successfully updated!'',
          emptyStore(taskId \<mapsto> sinkTask\<lparr>completed := False,
            completionDate := Some 1735000000000, completer := Some userA\<rparr>))
   \<and> \<not> isCompleted (emptyStore(taskId \<mapsto> sinkTask\<lparr>completed := False,
            completionDate := Some 1735000000000, completer := Some userA\<rparr>)) taskId"
proof -
  have a: "complete (emptyStore(taskId \<mapsto> sinkTask)) taskId (Some userA) 1735000000000
     = (Inr ''Successfully completed task.'', emptyStore(taskId \<mapsto> sinkTask\<lparr>completed := True, completionDate := Some 1735000000000,
        completer := Some userA\<rparr>))"
    by (simp add: complete_eq [OF readOne_upd])
  have b: "isCompleted (emptyStore(taskId \<mapsto> sinkTask\<lparr>completed := True, completionDate := Some 1735000000000,
        completer := Some userA\<rparr>)) taskId"
    by (simp add: isCompleted_upd)
  have c: "update (emptyStore(taskId \<mapsto> sinkTask\<lparr>completed := True, completionDate := Some 1735000000000,
        completer := Some userA\<rparr>)) taskId (emptyPartial\<lparr>p_completed := Some False\<rparr>)
       = (Inr ''Task successfully updated!'',
          emptyStore(taskId \<mapsto> sinkTask\<lparr>completed := False,
            completionDate := Some 1735000000000, completer := Some userA\<rparr>))"
    by (simp add: update_eq emptyPartial_requester updateOne_eq [OF readOne_upd]
        applyPartial_completed sinkTask_def)
  have d: "\<not> isCompleted (emptyStore(taskId \<mapsto> sinkTask\<lparr>completed := False,
            completionDate := Some 1735000000000, completer := Some userA\<rparr>)) taskId"
    by (simp add: isCompleted_upd)
  from a b c d show ?thesis by (intro conjI)
qed

end
